theory Spec2Isabelle
  imports Main
begin

section \<open>Python values\<close>

text \<open>
  The arguments of \<open>login\<close> and \<open>validate_token\<close> are untyped in the source, and the
  dictionary of \<open>get_board_config\<close> holds a string and a boolean. Values are the built-in
  scalars the two modules handle: \<open>None\<close>, booleans, integers and strings.
\<close>

datatype pyval = PNone | PBool bool | PInt int | PStr string

text \<open>
  Python's \<open>==\<close> on these values. A boolean is an integer (\<open>True == 1\<close>); a string is
  equal to a string with the same characters and to nothing else.
\<close>

fun py_eq :: "pyval \<Rightarrow> pyval \<Rightarrow> bool" where
  "py_eq PNone PNone = True"
| "py_eq (PBool a) (PBool b) = (a = b)"
| "py_eq (PBool a) (PInt j) = ((if a then 1 else 0) = j)"
| "py_eq (PInt i) (PBool b) = (i = (if b then 1 else 0))"
| "py_eq (PInt i) (PInt j) = (i = j)"
| "py_eq (PStr s) (PStr t) = (s = t)"
| "py_eq _ _ = False"

section \<open>login.py\<close>

text \<open>
  The module opens with \<^verbatim>\<open>from board import Board\<close>, a name that no operation
  below uses. The model starts at the class: it describes the operations once they are
  defined, and says nothing about loading the module.

  \<^verbatim>\<open>
  class AuthProvider:
      def __init__(self):
          self.is_authenticated = False
  \<close>
\<close>

record AuthProvider =
  is_authenticated :: bool

definition AuthProvider_init :: AuthProvider where
  "AuthProvider_init = \<lparr>is_authenticated = False\<rparr>"

text \<open>
  \<^verbatim>\<open>
      def login(self, username, password):
          if username == "admin" and password == "synapse":
              self.is_authenticated = True
              return True
          return False
  \<close>
  The method mutates \<open>self\<close>; the model returns the result together with the instance
  after the call.
\<close>

definition login :: "AuthProvider \<Rightarrow> pyval \<Rightarrow> pyval \<Rightarrow> bool \<times> AuthProvider" where
  "login self username password =
     (if py_eq username (PStr ''admin'') \<and> py_eq password (PStr ''synapse'')
      then (True, self\<lparr>is_authenticated := True\<rparr>)
      else (False, self))"

text \<open>
  \<^verbatim>\<open>
      def logout(self):
          self.is_authenticated = False
  \<close>
\<close>

definition logout :: "AuthProvider \<Rightarrow> AuthProvider" where
  "logout self = self\<lparr>is_authenticated := False\<rparr>"

text \<open>
  \<^verbatim>\<open>
  def validate_token(token):
      return token == "valid_token"
  \<close>
  A module-level function: it has no \<open>self\<close> and touches no instance.
\<close>

definition validate_token :: "pyval \<Rightarrow> bool" where
  "validate_token token = py_eq token (PStr ''valid_token'')"

section \<open>board.py\<close>

text \<open>
  \<^verbatim>\<open>
  class CanvasManager:
      def __init__(self, size):
          self.size = size
          self.elements = []
  \<close>
  The size and the elements are opaque to the class, hence type parameters. The field
  \<open>size\<close> is named \<open>size_field\<close>, since \<open>size\<close> is a constant of HOL.
\<close>

record ('s, 'e) CanvasManager =
  size_field :: 's
  elements :: "'e list"

definition CanvasManager_init :: "'s \<Rightarrow> ('s, 'e) CanvasManager" where
  "CanvasManager_init sz = \<lparr>size_field = sz, elements = []\<rparr>"

text \<open>
  \<^verbatim>\<open>
      def add_element(self, element):
          self.elements.append(element)

      def clear(self):
          self.elements = []
  \<close>
\<close>

definition add_element :: "('s, 'e) CanvasManager \<Rightarrow> 'e \<Rightarrow> ('s, 'e) CanvasManager" where
  "add_element self element = self\<lparr>elements := elements self @ [element]\<rparr>"

definition clear :: "('s, 'e) CanvasManager \<Rightarrow> ('s, 'e) CanvasManager" where
  "clear self = self\<lparr>elements := []\<rparr>"

text \<open>
  \<^verbatim>\<open>
  def get_board_config():
      return {"theme": "gruvbox", "grid": True}
  \<close>
  The dictionary is built anew by each call, from literals only.
\<close>

definition get_board_config :: "string \<rightharpoonup> pyval" where
  "get_board_config = [''theme'' \<mapsto> PStr ''gruvbox'', ''grid'' \<mapsto> PBool True]"

section \<open>Clients of the two modules\<close>

text \<open>
  A client holds one \<open>AuthProvider\<close> and one \<open>CanvasManager\<close> and calls the six
  operations in any order. A call returns \<open>None\<close>, a boolean or a dictionary.
\<close>

datatype 'e call =
    Login pyval pyval
  | Logout
  | ValidateToken pyval
  | AddElement 'e
  | Clear
  | GetBoardConfig

datatype ret = RetNone | RetBool bool | RetDict "string \<rightharpoonup> pyval"

record ('s, 'e) client =
  auth :: AuthProvider
  canvas :: "('s, 'e) CanvasManager"

fun exec :: "'e call \<Rightarrow> ('s, 'e) client \<Rightarrow> ret \<times> ('s, 'e) client" where
  "exec (Login u p) w = (RetBool (fst (login (auth w) u p)), w\<lparr>auth := snd (login (auth w) u p)\<rparr>)"
| "exec Logout w = (RetNone, w\<lparr>auth := logout (auth w)\<rparr>)"
| "exec (ValidateToken t) w = (RetBool (validate_token t), w)"
| "exec (AddElement e) w = (RetNone, w\<lparr>canvas := add_element (canvas w) e\<rparr>)"
| "exec Clear w = (RetNone, w\<lparr>canvas := clear (canvas w)\<rparr>)"
| "exec GetBoardConfig w = (RetDict get_board_config, w)"

fun run :: "'e call list \<Rightarrow> ('s, 'e) client \<Rightarrow> ('s, 'e) client" where
  "run [] w = w"
| "run (c # cs) w = run cs (snd (exec c w))"

definition fresh :: "'s \<Rightarrow> ('s, 'e) client" where
  "fresh sz = \<lparr>auth = AuthProvider_init, canvas = CanvasManager_init sz\<rparr>"

text \<open>A login call that succeeds is one with exactly the two literals of the source.\<close>

definition good_login :: "'e call" where
  "good_login = Login (PStr ''admin'') (PStr ''synapse'')"

section \<open>Comparison with a string literal\<close>

lemma py_eq_PStr: "py_eq v (PStr s) = (v = PStr s)"
  by (cases v) auto

lemma login_cases:
  "login self u p =
     (if u = PStr ''admin'' \<and> p = PStr ''synapse''
      then (True, self\<lparr>is_authenticated := True\<rparr>) else (False, self))"
  by (simp add: login_def py_eq_PStr)

section \<open>Runs of a client\<close>

lemma run_append: "run (cs @ ds) w = run ds (run cs w)"
  by (induction cs arbitrary: w) simp_all

lemma exec_size_field: "size_field (canvas (snd (exec c w))) = size_field (canvas w)"
  by (cases c) (simp_all add: add_element_def clear_def)

lemma run_size_field: "size_field (canvas (run cs w)) = size_field (canvas w)"
  by (induction cs arbitrary: w) (simp_all add: exec_size_field)


text \<open>
  One call against the session flag: it is set after the call exactly when the call is
  the login with the two literals, or the flag was set and the call is not a logout.
\<close>

lemma exec_auth_cases:
  "is_authenticated (auth (snd (exec c w))) =
     (c = good_login \<or> (c \<noteq> Logout \<and> is_authenticated (auth w)))"
  by (cases c) (auto simp add: login_cases logout_def good_login_def)

lemma run_authenticated_imp:
  "is_authenticated (auth (run cs w)) \<Longrightarrow> \<not> is_authenticated (auth w) \<Longrightarrow>
   \<exists>pre post. cs = pre @ good_login # post \<and> Logout \<notin> set post"
proof (induction cs rule: rev_induct)
  case Nil
  then show ?case by simp
next
  case (snoc c cs)
  from snoc.prems(1)
  have step: "c = good_login \<or> (c \<noteq> Logout \<and> is_authenticated (auth (run cs w)))"
    by (simp add: run_append exec_auth_cases)
  show ?case
  proof (cases "c = good_login")
    case True
    then have "cs @ [c] = cs @ good_login # [] \<and> Logout \<notin> set []" by simp
    then show ?thesis by blast
  next
    case False
    with step have keep: "c \<noteq> Logout" and before: "is_authenticated (auth (run cs w))"
      by simp_all
    from snoc.IH [OF before snoc.prems(2)]
    obtain pre post where "cs = pre @ good_login # post" and "Logout \<notin> set post"
      by blast
    with keep have "cs @ [c] = pre @ good_login # (post @ [c]) \<and> Logout \<notin> set (post @ [c])"
      by simp
    then show ?thesis by blast
  qed
qed

lemma run_no_Logout:
  "Logout \<notin> set cs \<Longrightarrow> is_authenticated (auth w) \<Longrightarrow> is_authenticated (auth (run cs w))"
  by (induction cs arbitrary: w) (auto simp add: exec_auth_cases)

lemma run_authenticated_iff:
  "is_authenticated (auth (run cs (fresh sz))) =
     (\<exists>pre post. cs = pre @ good_login # post \<and> Logout \<notin> set post)"
proof
  assume "is_authenticated (auth (run cs (fresh sz)))"
  then show "\<exists>pre post. cs = pre @ good_login # post \<and> Logout \<notin> set post"
    by (rule run_authenticated_imp) (simp add: fresh_def AuthProvider_init_def)
next
  assume "\<exists>pre post. cs = pre @ good_login # post \<and> Logout \<notin> set post"
  then obtain pre post where cs: "cs = pre @ good_login # post" and post: "Logout \<notin> set post"
    by blast
  have "is_authenticated (auth (snd (exec good_login (run pre (fresh sz)))))"
    by (simp add: exec_auth_cases)
  with post show "is_authenticated (auth (run cs (fresh sz)))"
    by (simp add: cs run_append run_no_Logout)
qed

section \<open>AuthProvider\<close>

text \<open>
  C1. In every prior state of an \<open>AuthProvider\<close>, \<open>login("admin", "synapse")\<close> returns
  true and \<open>is_authenticated\<close> is true after the call.
\<close>

theorem login_admin_synapse:
  "fst (login self (PStr ''admin'') (PStr ''synapse'')) = True \<and>
   is_authenticated (snd (login self (PStr ''admin'') (PStr ''synapse''))) = True"
  by (simp add: login_cases)




text \<open>
  C3. A login with any pair other than \<open>("admin", "synapse")\<close> returns false and leaves
  the instance as it was before the call; a fresh instance starts with
  \<open>is_authenticated\<close> false and it is still false after such a call.
\<close>

theorem login_rejected_unchanged:
  "(u, p) \<noteq> (PStr ''admin'', PStr ''synapse'') \<Longrightarrow>
   login self u p = (False, self) \<and>
   is_authenticated AuthProvider_init = False \<and>
   is_authenticated (snd (login AuthProvider_init u p)) = False"
  by (auto simp add: login_cases AuthProvider_init_def)

theorem login_rejected_unchanged_witness:
  "(PInt 0, PStr ''synapse'') \<noteq> (PStr ''admin'', PStr ''synapse'') \<and>
   login \<lparr>is_authenticated = True\<rparr> (PInt 0) (PStr ''synapse'')
     = (False, \<lparr>is_authenticated = True\<rparr>) \<and>
   is_authenticated (snd (login AuthProvider_init (PInt 0) (PStr ''synapse''))) = False"
proof -
  have differs: "(PInt 0, PStr ''synapse'') \<noteq> (PStr ''admin'', PStr ''synapse'')"
    by simp
  from login_rejected_unchanged [OF differs, of "\<lparr>is_authenticated = True\<rparr>"] differs
  show ?thesis by simp
qed

text \<open>
  C4. In every prior state \<open>logout()\<close> leaves \<open>is_authenticated\<close> false, in particular
  right after a successful login.
\<close>

theorem logout_unauthenticated:
  "is_authenticated (logout self) = False \<and>
   is_authenticated (logout (snd (login self (PStr ''admin'') (PStr ''synapse'')))) = False"
  by (simp add: logout_def)

text \<open>
  C5. \<open>validate_token(token)\<close> is true exactly when the token is the string
  \<open>"valid_token"\<close>. Called by a client in any state, the result is that comparison and
  the client, with its \<open>AuthProvider\<close>, is as before.
\<close>

theorem validate_token_iff:
  "validate_token token = (token = PStr ''valid_token'') \<and>
   exec (ValidateToken token) w = (RetBool (token = PStr ''valid_token''), w)"
  by (simp add: validate_token_def py_eq_PStr)

text \<open>
  C9. The session flag as a state machine. A fresh instance is unauthenticated. The
  login with the two literals leads to the authenticated state, and a call that takes
  an unauthenticated instance to an authenticated one is that login. A logout leads to
  the unauthenticated state, and a call that takes an authenticated instance to an
  unauthenticated one is a logout. A rejected login on an unauthenticated instance
  returns false and changes nothing. After any run of calls from a fresh instance, the
  instance is authenticated only if the run holds a login with the two literals with no
  logout after it.
\<close>

theorem auth_state_machine:
  "is_authenticated (auth (fresh sz)) = False \<and>
   is_authenticated (auth (snd (exec good_login w))) \<and>
   (\<not> is_authenticated (auth w) \<and> is_authenticated (auth (snd (exec c w)))
      \<longrightarrow> c = good_login) \<and>
   \<not> is_authenticated (auth (snd (exec Logout w))) \<and>
   (is_authenticated (auth w) \<and> \<not> is_authenticated (auth (snd (exec c w)))
      \<longrightarrow> c = Logout) \<and>
   ((u, p) \<noteq> (PStr ''admin'', PStr ''synapse'') \<and> \<not> is_authenticated (auth w)
      \<longrightarrow> exec (Login u p) w = (RetBool False, w)) \<and>
   (is_authenticated (auth (run cs (fresh sz)))
      \<longrightarrow> (\<exists>pre post. cs = pre @ good_login # post \<and> Logout \<notin> set post))"
proof -
  have start: "is_authenticated (auth (fresh sz)) = False"
    by (simp add: fresh_def AuthProvider_init_def)
  have good: "is_authenticated (auth (snd (exec good_login w)))"
    by (simp only: exec_auth_cases) simp
  have up: "\<not> is_authenticated (auth w) \<and> is_authenticated (auth (snd (exec c w)))
      \<longrightarrow> c = good_login"
    by (simp only: exec_auth_cases) blast
  have out: "\<not> is_authenticated (auth (snd (exec Logout w)))"
    by (simp add: logout_def)
  have down: "is_authenticated (auth w) \<and> \<not> is_authenticated (auth (snd (exec c w)))
      \<longrightarrow> c = Logout"
    by (simp only: exec_auth_cases) blast
  have rejected: "(u, p) \<noteq> (PStr ''admin'', PStr ''synapse'') \<and> \<not> is_authenticated (auth w)
      \<longrightarrow> exec (Login u p) w = (RetBool False, w)"
    by (auto simp add: login_cases)
  have inv: "is_authenticated (auth (run cs (fresh sz)))
      \<longrightarrow> (\<exists>pre post. cs = pre @ good_login # post \<and> Logout \<notin> set post)"
    by (simp only: run_authenticated_iff) simp
  from start good up out down rejected inv show ?thesis
    by (intro conjI)
qed

theorem auth_state_machine_witness:
  "\<not> is_authenticated (auth (fresh () :: (unit, nat) client)) \<and>
   is_authenticated (auth (snd (exec good_login (fresh () :: (unit, nat) client)))) \<and>
   is_authenticated (auth (\<lparr>auth = \<lparr>is_authenticated = True\<rparr>, canvas = CanvasManager_init ()\<rparr>
      :: (unit, nat) client)) \<and>
   \<not> is_authenticated (auth (snd (exec Logout
      (\<lparr>auth = \<lparr>is_authenticated = True\<rparr>, canvas = CanvasManager_init ()\<rparr>
        :: (unit, nat) client)))) \<and>
   (PStr ''admin'', PStr ''Synapse'') \<noteq> (PStr ''admin'', PStr ''synapse'') \<and>
   exec (Login (PStr ''admin'') (PStr ''Synapse'')) (fresh () :: (unit, nat) client)
     = (RetBool False, fresh ()) \<and>
   is_authenticated (auth (run [good_login, AddElement 1] (fresh () :: (unit, nat) client))) \<and>
   (\<exists>pre post. [good_login, AddElement (1::nat)] = pre @ good_login # post \<and>
      Logout \<notin> set post)"
proof -
  let ?w = "fresh () :: (unit, nat) client"
  let ?a = "\<lparr>auth = \<lparr>is_authenticated = True\<rparr>, canvas = CanvasManager_init ()\<rparr> :: (unit, nat) client"
  let ?cs = "[good_login, AddElement (1::nat)]"
  have unauth: "\<not> is_authenticated (auth ?w)"
    by (simp add: fresh_def AuthProvider_init_def)
  have entered: "is_authenticated (auth (snd (exec good_login ?w)))"
    by (simp add: good_login_def login_cases)
  have authd: "is_authenticated (auth ?a)"
    by simp
  have left: "\<not> is_authenticated (auth (snd (exec Logout ?a)))"
    by (simp add: logout_def)
  have differs: "(PStr ''admin'', PStr ''Synapse'') \<noteq> (PStr ''admin'', PStr ''synapse'')"
    by simp
  have reached: "is_authenticated (auth (run ?cs ?w))"
    by (simp add: good_login_def login_cases)
  note at_fresh = auth_state_machine
    [of "()" ?w good_login "PStr ''admin''" "PStr ''Synapse''" ?cs]
  from at_fresh differs unauth
  have rejected: "exec (Login (PStr ''admin'') (PStr ''Synapse'')) ?w = (RetBool False, ?w)"
    by blast
  from at_fresh reached
  have trace: "\<exists>pre post. ?cs = pre @ good_login # post \<and> Logout \<notin> set post"
    by blast
  from unauth entered authd left differs rejected reached trace show ?thesis
    by (intro conjI)
qed

section \<open>CanvasManager\<close>

text \<open>
  C6. A \<open>CanvasManager\<close> built with any size has no elements; after \<open>add_element(x)\<close>
  and \<open>add_element(y)\<close> its elements are \<open>[x, y]\<close>, and after a \<open>clear()\<close> it has none.
\<close>

theorem canvas_add_add_clear:
  "elements (CanvasManager_init sz :: ('s, 'e) CanvasManager) = [] \<and>
   elements (add_element (add_element (CanvasManager_init sz) x) y) = [x, y] \<and>
   elements (clear (add_element (add_element (CanvasManager_init sz) x) y)) = []"
  by (simp add: CanvasManager_init_def add_element_def clear_def)

text \<open>
  C7. \<open>get_board_config()\<close> maps \<open>"theme"\<close> to \<open>"gruvbox"\<close>, \<open>"grid"\<close> to \<open>True\<close> and no
  other key. A client in any state gets this dictionary and is left as it was, and gets
  the same dictionary after any run of calls.
\<close>

theorem get_board_config_fixed:
  "get_board_config k =
     (if k = ''theme'' then Some (PStr ''gruvbox'')
      else if k = ''grid'' then Some (PBool True) else None) \<and>
   get_board_config = [''grid'' \<mapsto> PBool True, ''theme'' \<mapsto> PStr ''gruvbox''] \<and>
   exec GetBoardConfig w = (RetDict get_board_config, w) \<and>
   fst (exec GetBoardConfig (run cs w)) = fst (exec GetBoardConfig w)"
  by (auto simp add: get_board_config_def)

text \<open>
  C10. \<open>add_element\<close> and \<open>clear\<close> leave the size as it is, and after any run of calls
  on a client built with a size, the size of its canvas is the one given to the
  constructor.
\<close>

theorem size_never_modified:
  "size_field (CanvasManager_init sz) = sz \<and>
   size_field (add_element self element) = size_field self \<and>
   size_field (clear self) = size_field self \<and>
   size_field (canvas (run cs (fresh sz))) = sz"
  by (simp add: run_size_field) (simp add: add_element_def clear_def fresh_def CanvasManager_init_def)

section \<open>No operation fails\<close>


end
